theory Spec2Isabelle
  imports Main
begin

unbundle bit_operations_syntax

section \<open>JavaScript values\<close>

text \<open>
  The request parameters reach \<open>logic.js\<close> from the JSON body parser, so every value is
  a JSON value. \<open>undefined\<close> (a missing parameter, a missing property) is \<open>None\<close> of
  \<open>json option\<close>. An object is the list of its own properties in property order; its
  keys are distinct. Numbers are modelled as integers (exact below \<open>2^53\<close>); strings are
  modelled by their UTF-8 bytes.
\<close>

datatype json =
    JNull
  | JBool bool
  | JNum int
  | JStr string
  | JArr "json list"
  | JObj "(string \<times> json) list"

text \<open>Errors thrown: \<open>new Error(message)\<close>, and the TypeError the runtime raises.\<close>

datatype error = Error string | TypeError

fun typeof :: "json option \<Rightarrow> string" where
  "typeof None = ''undefined''"
| "typeof (Some JNull) = ''object''"
| "typeof (Some (JBool b)) = ''boolean''"
| "typeof (Some (JNum n)) = ''number''"
| "typeof (Some (JStr s)) = ''string''"
| "typeof (Some (JArr xs)) = ''object''"
| "typeof (Some (JObj kvs)) = ''object''"

text \<open>Truthiness, as \<open>if (v)\<close> and \<open>!v\<close> use it.\<close>

fun truthy :: "json option \<Rightarrow> bool" where
  "truthy None = False"
| "truthy (Some JNull) = False"
| "truthy (Some (JBool b)) = b"
| "truthy (Some (JNum n)) = (n \<noteq> 0)"
| "truthy (Some (JStr s)) = (s \<noteq> [])"
| "truthy (Some (JArr xs)) = True"
| "truthy (Some (JObj kvs)) = True"

text \<open>\<open>Number.isInteger(v)\<close>.\<close>

fun isInteger :: "json option \<Rightarrow> bool" where
  "isInteger (Some (JNum n)) = True"
| "isInteger _ = False"

text \<open>Decimal rendering of a number, as \<open>String(n)\<close> and \<open>JSON.stringify\<close> give it.\<close>

definition digit_char :: "nat \<Rightarrow> char" where
  "digit_char d = ''0123456789abcdef'' ! (d mod 16)"

function radix_digits :: "nat \<Rightarrow> nat \<Rightarrow> string" where
  "radix_digits b n =
     (if b < 2 \<or> n < b then [digit_char n]
      else radix_digits b (n div b) @ [digit_char (n mod b)])"
  by pat_completeness auto
termination
  by (relation "measure snd") auto

declare radix_digits.simps [simp del]

definition numberToString :: "int \<Rightarrow> string" where
  "numberToString n =
     (if n < 0 then CHR ''-'' # radix_digits 10 (nat (- n)) else radix_digits 10 (nat n))"

text \<open>
  \<open>v[0]\<close>: the first element of an array, the property \<open>"0"\<close> of an object, the first
  character of a string; \<open>undefined\<close> on the other primitives. On \<open>null\<close> and
  \<open>undefined\<close> the access raises, which the callers below write out.
\<close>

fun elem0 :: "json \<Rightarrow> json option" where
  "elem0 (JArr []) = None"
| "elem0 (JArr (x # xs)) = Some x"
| "elem0 (JObj kvs) = map_of kvs ''0''"
| "elem0 (JStr []) = None"
| "elem0 (JStr (c # cs)) = Some (JStr [c])"
| "elem0 _ = None"

text \<open>
  \<open>payload.name\<close> and \<open>payload[name]\<close> for the property names of a transaction payload:
  an own property of an object; arrays, strings and the other primitives have none of
  these names.
\<close>

fun getProp :: "json \<Rightarrow> string \<Rightarrow> json option" where
  "getProp (JObj kvs) k = map_of kvs k"
| "getProp _ k = None"

text \<open>\<open>Object.keys(v)\<close> for \<open>v\<close> other than \<open>null\<close> and \<open>undefined\<close>.\<close>

fun keys :: "json \<Rightarrow> string list" where
  "keys (JObj kvs) = map fst kvs"
| "keys (JArr xs) = map (radix_digits 10) [0..<length xs]"
| "keys (JStr s) = map (radix_digits 10) [0..<length s]"
| "keys _ = []"

text \<open>\<open>obj[k] = v\<close> and \<open>delete obj[k]\<close> on the property list of an object.\<close>

fun assign :: "('k \<times> 'v) list \<Rightarrow> 'k \<Rightarrow> 'v \<Rightarrow> ('k \<times> 'v) list" where
  "assign [] k v = [(k, v)]"
| "assign (p # ps) k v = (if fst p = k then (k, v) # ps else p # assign ps k v)"

definition deleteProp :: "('k \<times> 'v) list \<Rightarrow> 'k \<Rightarrow> ('k \<times> 'v) list" where
  "deleteProp ps k = filter (\<lambda>p. fst p \<noteq> k) ps"

text \<open>
  \<open>s.toLowerCase()\<close> on the ASCII letters. JavaScript also maps the letters beyond
  ASCII, which a hexadecimal address does not have.
\<close>

definition lower_char :: "char \<Rightarrow> char" where
  "lower_char c =
     (if 65 \<le> (of_char c :: nat) \<and> (of_char c :: nat) \<le> 90
      then char_of (of_char c + 32 :: nat) else c)"

definition toLowerCase :: "string \<Rightarrow> string" where
  "toLowerCase s = map lower_char s"

section \<open>Payload validation\<close>

text \<open>\<open>[...new Set(a)]\<close>: the elements of \<open>a\<close> in order of first occurrence.\<close>

definition newSet :: "'a list \<Rightarrow> 'a list" where
  "newSet a = foldl (\<lambda>acc x. if x \<in> set acc then acc else acc @ [x]) [] a"

definition intersect :: "'a list \<Rightarrow> 'a list \<Rightarrow> 'a list" where
  "intersect a b = filter (\<lambda>x. x \<in> set (newSet b)) (newSet a)"

definition expectedFields :: "string list" where
  "expectedFields =
     [''version'', ''nonce'', ''toAddr'', ''amount'', ''pubKey'', ''gasPrice'', ''gasLimit'',
      ''signature'']"

text \<open>
  The callback of \<open>Object.keys(payload).map\<close> in \<open>checkTransactionJson\<close>:
  \<open>Some False\<close> is its \<open>return false\<close>, \<open>None\<close> is falling off its end. The second
  test is \<open>typeof(payload[e] !== 'string')\<close> as the source writes it: the type of a
  comparison result.
\<close>

definition typeCheck :: "json \<Rightarrow> string \<Rightarrow> bool option" where
  "typeCheck payload e =
     (if e = ''version'' \<or> e = ''nonce'' then
        (if \<not> isInteger (getProp payload e) then Some False else None)
      else
        (if truthy (Some (JStr (typeof (Some (JBool (getProp payload e \<noteq> Some (JStr ''string'')))))))
         then Some False else None))"

text \<open>
  \<open>checkTransactionJson(data)\<close>. The results of the \<open>map\<close> over the keys are dropped
  by the source, and so they are here.
\<close>

definition checkTransactionJson :: "json option \<Rightarrow> error + bool" where
  "checkTransactionJson data =
     (if data \<noteq> Some JNull \<and> typeof data \<noteq> ''object'' then Inr False
      else case data of
        None \<Rightarrow> Inl TypeError
      | Some JNull \<Rightarrow> Inl TypeError
      | Some d \<Rightarrow>
         (case elem0 d of
            None \<Rightarrow> Inl TypeError
          | Some JNull \<Rightarrow> Inl TypeError
          | Some payload \<Rightarrow>
              (let numKeys = length (keys payload) in
               if numKeys < 8 then Inr False
               else
                 let payloadKeys = keys payload;
                     expected = length (intersect payloadKeys expectedFields);
                     actual = length (keys (JArr (map JStr expectedFields)))
                 in if expected \<noteq> actual then Inr False
                    else let checked = map (typeCheck payload) (keys payload)
                         in Inr True)))"

section \<open>SHA-256 (hash.js)\<close>

text \<open>
  \<open>hashjs.sha256().update(...).digest('hex')\<close> computes SHA-256 (FIPS 180-4) of the
  bytes it was given. Bytes and 32-bit words are integers; the wrap-around of the 32-bit
  addition is written out (\<open>take_bit 32\<close> is the remainder modulo \<open>2^32\<close>), and a
  rotation puts the low \<open>n\<close> bits above the others.
\<close>

definition add32 :: "int \<Rightarrow> int \<Rightarrow> int" where
  "add32 a b = take_bit 32 (a + b)"

definition rotr :: "nat \<Rightarrow> int \<Rightarrow> int" where
  "rotr n x = drop_bit n x + push_bit (32 - n) (take_bit n x)"

definition ch32 :: "int \<Rightarrow> int \<Rightarrow> int \<Rightarrow> int" where
  "ch32 x y z = (x AND y) XOR ((4294967295 - x) AND z)"

definition maj32 :: "int \<Rightarrow> int \<Rightarrow> int \<Rightarrow> int" where
  "maj32 x y z = (x AND y) XOR (x AND z) XOR (y AND z)"

definition s0_256 :: "int \<Rightarrow> int" where
  "s0_256 x = rotr 2 x XOR rotr 13 x XOR rotr 22 x"

definition s1_256 :: "int \<Rightarrow> int" where
  "s1_256 x = rotr 6 x XOR rotr 11 x XOR rotr 25 x"

definition g0_256 :: "int \<Rightarrow> int" where
  "g0_256 x = rotr 7 x XOR rotr 18 x XOR drop_bit 3 x"

definition g1_256 :: "int \<Rightarrow> int" where
  "g1_256 x = rotr 17 x XOR rotr 19 x XOR drop_bit 10 x"

text \<open>The sixty-four round constants of the standard, in decimal.\<close>

definition sha256_K :: "int list" where
  "sha256_K = [
    1116352408, 1899447441, 3049323471, 3921009573, 961987163, 1508970993,
    2453635748, 2870763221, 3624381080, 310598401, 607225278, 1426881987,
    1925078388, 2162078206, 2614888103, 3248222580, 3835390401, 4022224774,
    264347078, 604807628, 770255983, 1249150122, 1555081692, 1996064986,
    2554220882, 2821834349, 2952996808, 3210313671, 3336571891, 3584528711,
    113926993, 338241895, 666307205, 773529912, 1294757372, 1396182291,
    1695183700, 1986661051, 2177026350, 2456956037, 2730485921, 2820302411,
    3259730800, 3345764771, 3516065817, 3600352804, 4094571909, 275423344,
    430227734, 506948616, 659060556, 883997877, 958139571, 1322822218,
    1537002063, 1747873779, 1955562222, 2024104815, 2227730452, 2361852424,
    2428436474, 2756734187, 3204031479, 3329325298]"

type_synonym hstate = "int \<times> int \<times> int \<times> int \<times> int \<times> int \<times> int \<times> int"

definition sha256_init :: hstate where
  "sha256_init = (1779033703, 3144134277, 1013904242, 2773480762,
                  1359893119, 2600822924, 528734635, 1541459225)"

text \<open>The message schedule; \<open>ws\<close> holds the words made so far, the newest first.\<close>

fun schedule :: "nat \<Rightarrow> int list \<Rightarrow> int list" where
  "schedule 0 ws = ws"
| "schedule (Suc n) ws =
     schedule n
       (add32 (add32 (add32 (g1_256 (ws ! 1)) (ws ! 6)) (g0_256 (ws ! 14))) (ws ! 15) # ws)"

definition round_step :: "int \<Rightarrow> int \<Rightarrow> hstate \<Rightarrow> hstate" where
  "round_step T1 T2 s = (case s of (a, b, c, d, e, f, g, h) \<Rightarrow>
     (add32 T1 T2, a, b, c, add32 d T1, e, f, g))"

definition round256 :: "hstate \<Rightarrow> int \<times> int \<Rightarrow> hstate" where
  "round256 s kw = (case s of (a, b, c, d, e, f, g, h) \<Rightarrow>
     round_step (add32 (add32 (add32 (add32 h (s1_256 e)) (ch32 e f g)) (fst kw)) (snd kw))
                (add32 (s0_256 a) (maj32 a b c)) s)"

definition add_state :: "hstate \<Rightarrow> hstate \<Rightarrow> hstate" where
  "add_state s t = (case s of (a, b, c, d, e, f, g, h) \<Rightarrow>
     case t of (a', b', c', d', e', f', g', h') \<Rightarrow>
       (add32 a a', add32 b b', add32 c c', add32 d d',
        add32 e e', add32 f f', add32 g g', add32 h h'))"

definition compress :: "hstate \<Rightarrow> int list \<Rightarrow> hstate" where
  "compress s block =
     add_state s (foldl round256 s (zip sha256_K (rev (schedule 48 (rev block)))))"

text \<open>Big-endian bytes of a number, at a fixed width.\<close>

fun be_bytes :: "nat \<Rightarrow> int \<Rightarrow> int list" where
  "be_bytes 0 n = []"
| "be_bytes (Suc k) n = be_bytes k (n div 256) @ [n mod 256]"

definition join32 :: "int list \<Rightarrow> int" where
  "join32 bs = foldl (\<lambda>acc b. acc * 256 + b) 0 bs"

fun groups :: "nat \<Rightarrow> nat \<Rightarrow> 'a list \<Rightarrow> 'a list list" where
  "groups k 0 xs = []"
| "groups k (Suc n) xs = take k xs # groups k n (drop k xs)"

definition pad :: "int list \<Rightarrow> int list" where
  "pad msg = msg @ [128] @ replicate ((119 - length msg mod 64) mod 64) 0
               @ be_bytes 8 (8 * int (length msg))"

definition sha256_blocks :: "int list \<Rightarrow> int list list" where
  "sha256_blocks msg = (let p = pad msg in
     map (\<lambda>b. map join32 (groups 4 16 b)) (groups 64 (length p div 64) p))"

definition sha256_digest :: "int list \<Rightarrow> int list" where
  "sha256_digest msg = (case foldl compress sha256_init (sha256_blocks msg) of
     (a, b, c, d, e, f, g, h) \<Rightarrow> concat (map (be_bytes 4) [a, b, c, d, e, f, g, h]))"

definition hex_byte :: "int \<Rightarrow> string" where
  "hex_byte b = [digit_char (nat (b div 16)), digit_char (nat (b mod 16))]"

definition toHex :: "int list \<Rightarrow> string" where
  "toHex bs = concat (map hex_byte bs)"

definition sha256 :: "int list \<Rightarrow> string" where
  "sha256 msg = toHex (sha256_digest msg)"

text \<open>\<open>Buffer.from(s)\<close>: the UTF-8 bytes of a string.\<close>

definition bytes_of :: "string \<Rightarrow> int list" where
  "bytes_of s = map of_char s"

section \<open>Transaction hash and contract address\<close>

text \<open>
  \<open>JSON.stringify\<close> of a JSON value: no white space, the properties in property order,
  strings quoted with the escapes of ECMAScript's \<open>QuoteJSONString\<close>.
\<close>

definition escape_char :: "char \<Rightarrow> string" where
  "escape_char c =
     (if c = CHR 0x22 then [CHR 0x5C, CHR 0x22]
      else if c = CHR 0x5C then [CHR 0x5C, CHR 0x5C]
      else if c = CHR 0x08 then [CHR 0x5C, CHR ''b'']
      else if c = CHR 0x09 then [CHR 0x5C, CHR ''t'']
      else if c = CHR 0x0A then [CHR 0x5C, CHR ''n'']
      else if c = CHR 0x0C then [CHR 0x5C, CHR ''f'']
      else if c = CHR 0x0D then [CHR 0x5C, CHR ''r'']
      else if (of_char c :: nat) < 32
        then [CHR 0x5C, CHR ''u'', CHR ''0'', CHR ''0'',
              digit_char (of_char c div 16), digit_char (of_char c mod 16)]
      else [c])"

definition quote :: "string \<Rightarrow> string" where
  "quote s = CHR 0x22 # concat (map escape_char s) @ [CHR 0x22]"

fun joinWith :: "string \<Rightarrow> string list \<Rightarrow> string" where
  "joinWith sep [] = []"
| "joinWith sep [x] = x"
| "joinWith sep (x # y # ys) = x @ sep @ joinWith sep (y # ys)"

fun stringify :: "json \<Rightarrow> string" where
  "stringify JNull = ''null''"
| "stringify (JBool b) = (if b then ''true'' else ''false'')"
| "stringify (JNum n) = numberToString n"
| "stringify (JStr s) = quote s"
| "stringify (JArr xs) = ''['' @ joinWith '','' (map stringify xs) @ '']''"
| "stringify (JObj kvs) =
     ''{'' @ joinWith '','' (map (\<lambda>p. quote (fst p) @ '':'' @ stringify (snd p)) kvs) @ ''}''"

text \<open>
  \<open>computeTransactionHash(payload)\<close>. \<open>copyPayload\<close> is a deep copy, made so that the
  \<open>delete\<close> leaves the caller's payload alone; values are immutable here, and the copy of
  a JSON value is the value. The function is not exported: \<open>processCreateTxn\<close> is its
  only caller, with a payload the validator has accepted, so the \<open>delete\<close> never
  meets \<open>null\<close>, where it would raise.
\<close>

definition computeTransactionHash :: "json \<Rightarrow> string" where
  "computeTransactionHash payload =
     (let copyPayload = (case payload of JObj kvs \<Rightarrow> JObj (deleteProp kvs ''signature'')
                                        | v \<Rightarrow> v);
          buf = bytes_of (stringify copyPayload)
      in sha256 buf)"

text \<open>
  \<open>update(msg, 'hex')\<close> of hash.js turns a hexadecimal string into bytes: characters
  other than letters and digits are dropped, a string of odd length gets a leading
  \<open>0\<close>, and each pair goes through \<open>parseInt(pair, 16)\<close>, which reads the longest
  hexadecimal prefix (a pair without one counts as the byte 0 in the hash).
\<close>

definition alnum :: "char \<Rightarrow> bool" where
  "alnum c = (let n = (of_char c :: nat) in
     (48 \<le> n \<and> n \<le> 57) \<or> (65 \<le> n \<and> n \<le> 90) \<or> (97 \<le> n \<and> n \<le> 122))"

definition hex_val :: "char \<Rightarrow> int option" where
  "hex_val c = (let n = (of_char c :: nat) in
     if 48 \<le> n \<and> n \<le> 57 then Some (int n - 48)
     else if 97 \<le> n \<and> n \<le> 102 then Some (int n - 87)
     else if 65 \<le> n \<and> n \<le> 70 then Some (int n - 55)
     else None)"

definition parseInt16 :: "char \<Rightarrow> char \<Rightarrow> int" where
  "parseInt16 a b =
     (case hex_val a of None \<Rightarrow> 0
      | Some x \<Rightarrow> (case hex_val b of None \<Rightarrow> x | Some y \<Rightarrow> 16 * x + y))"

fun pairs16 :: "string \<Rightarrow> int list" where
  "pairs16 (a # b # cs) = parseInt16 a b # pairs16 cs"
| "pairs16 _ = []"

definition hexToArray :: "string \<Rightarrow> int list" where
  "hexToArray msg =
     (let m = filter alnum msg
      in pairs16 (if odd (length m) then CHR ''0'' # m else m))"

text \<open>
  \<open>bytes.intToHexArray(int, size)\<close> of @zilliqa-js/util: the digits of
  \<open>int.toString(16)\<close>, one string each, after \<open>size - length\<close> zeros (\<open>width\<close> is its \<open>size\<close>).
\<close>

definition intToHexArray :: "nat \<Rightarrow> nat \<Rightarrow> string list" where
  "intToHexArray n width =
     (let hexVal = radix_digits 16 n
      in replicate (width - length hexVal) ''0'' @ map (\<lambda>c. [c]) hexVal)"

section \<open>The wallet\<close>

text \<open>
  The wallet module (\<open>components/wallet/wallet.js\<close>) is not among the sources; its
  five functions that \<open>logic.js\<close> calls are modelled from the interface the spec gives:
  \<open>getBalance(addr) -> {balance, nonce}\<close>, \<open>deductFunds(addr, amount)\<close>,
  \<open>addFunds(addr, amount)\<close>, \<open>increaseNonce(addr)\<close>,
  \<open>sufficientFunds(addr, amount) -> bool\<close>. Every address has an account.
\<close>

record account =
  balance :: int
  nonce :: nat

text \<open>Modelled from the spec: \<open>getBalance\<close> of the missing wallet module, the account
  (balance and nonce) of an address.\<close>

definition getBalance :: "(string \<Rightarrow> account) \<Rightarrow> string \<Rightarrow> account" where
  "getBalance w addr = w addr"

text \<open>Modelled from the spec: \<open>deductFunds\<close> of the missing wallet module. The spec says
  that the deduction is not guarded by a check of the funds and can drive a balance
  negative.\<close>

definition deductFunds :: "(string \<Rightarrow> account) \<Rightarrow> string \<Rightarrow> int \<Rightarrow> (string \<Rightarrow> account)" where
  "deductFunds w addr amt = w(addr := (w addr)\<lparr>balance := balance (w addr) - amt\<rparr>)"

text \<open>Modelled from the spec: \<open>addFunds\<close> of the missing wallet module, the credit of an
  amount to an address.\<close>

definition addFunds :: "(string \<Rightarrow> account) \<Rightarrow> string \<Rightarrow> int \<Rightarrow> (string \<Rightarrow> account)" where
  "addFunds w addr amt = w(addr := (w addr)\<lparr>balance := balance (w addr) + amt\<rparr>)"

text \<open>Modelled from the spec: \<open>increaseNonce\<close> of the missing wallet module; the nonce
  goes up by exactly one.\<close>

definition increaseNonce :: "(string \<Rightarrow> account) \<Rightarrow> string \<Rightarrow> (string \<Rightarrow> account)" where
  "increaseNonce w addr = w(addr := (w addr)\<lparr>nonce := nonce (w addr) + 1\<rparr>)"

text \<open>Modelled from the spec: \<open>sufficientFunds\<close> of the missing wallet module; the spec
  rejects when the sender's balance is below the amount.\<close>

definition sufficientFunds :: "(string \<Rightarrow> account) \<Rightarrow> string \<Rightarrow> int \<Rightarrow> bool" where
  "sufficientFunds w addr amt = (amt \<le> balance (w addr))"

text \<open>\<open>computeContractAddr(senderAddr)\<close>, with the wallet it reads the nonce from.\<close>

definition computeContractAddr :: "(string \<Rightarrow> account) \<Rightarrow> string \<Rightarrow> string" where
  "computeContractAddr w senderAddr =
     (let userNonce = nonce (getBalance w senderAddr)
      in drop 24 (sha256 (hexToArray senderAddr
                          @ hexToArray (concat (intToHexArray userNonce 16)))))"

section \<open>Collaborators of \<open>logic.js\<close>\<close>

text \<open>
  Modelled from the spec: the Scilla runner (\<open>components/scilla/scilla.js\<close>), the
  configuration (\<open>config.js\<close>) and the block counter (\<open>components/blockchain.js\<close>) are
  not among the sources. The spec has the runner as an opaque service,
  \<open>run(payload, contractAddr, senderAddr, dataDir, blockNum) -> {nextAddress, gasRemaining}\<close>,
  that may fail; it is a parameter of the model, and so are the two constants of
  \<open>config.blockchain\<close> and the block number.

  The other parameters are what \<open>logic.js\<close> takes from the language and from
  libraries: JavaScript's \<open><\<close> between a payload value and a number; the value of
  \<open>new BN(v)\<close> (bn.js), which can throw; \<open>getAddressFromPublicKey\<close> and
  \<open>validation.isAddress\<close> of the Zilliqa library; the text of a file (\<open>None\<close> when
  \<open>fs.existsSync\<close> is false) and \<open>JSON.parse\<close> of such a text.
\<close>

record scillaResponse =
  nextAddress :: string
  gasRemaining :: "json option"

record deps =
  gasPrice :: int
  transferGasCost :: int
  lessThan :: "json option \<Rightarrow> int \<Rightarrow> bool"
  BN :: "json option \<Rightarrow> error + int"
  getAddressFromPublicKey :: "json option \<Rightarrow> string"
  isAddress :: "string \<Rightarrow> bool"
  executeScillaRun ::
    "json \<Rightarrow> string \<Rightarrow> string \<Rightarrow> json option \<Rightarrow> int \<Rightarrow> error + scillaResponse"
  getBlockNum :: int
  readFile :: "string \<Rightarrow> string option"
  JSON_parse :: "string \<Rightarrow> error + json"

section \<open>The ledger, the registry and the snapshot\<close>

text \<open>
  A ledger entry, \<open>txnDetails\<close> with its \<open>recInfo\<close>. The field \<open>txnNonce\<close> is the
  source's \<open>nonce\<close>, a name the account has taken.
\<close>

record recInfo =
  cumulative_gas :: int
  success :: bool

record txnDetails =
  ID :: string
  amount :: "json option"
  txnNonce :: "json option"
  receipt :: recInfo
  senderPubKey :: "json option"
  signature :: "json option"
  toAddr :: "json option"
  version :: "json option"

text \<open>
  The two module variables of \<open>logic.js\<close>, each an object used as a dictionary: the
  list of its properties in insertion order. \<open>world\<close> adds the accounts of the wallet
  module, which \<open>processCreateTxn\<close> changes through the wallet's functions.
\<close>

record ledger =
  transactions :: "(string \<times> txnDetails) list"
  createdContractsByUsers :: "(string \<times> string list) list"

record world = ledger +
  wallets :: "string \<Rightarrow> account"

definition exportData :: "world \<Rightarrow> ledger" where
  "exportData st =
     \<lparr>transactions = transactions st,
      createdContractsByUsers = createdContractsByUsers st\<rparr>"

definition loadData ::
  "(string \<times> txnDetails) list \<Rightarrow> (string \<times> string list) list \<Rightarrow> world \<Rightarrow> world" where
  "loadData txns contractsByUsers st =
     st\<lparr>transactions := txns, createdContractsByUsers := contractsByUsers\<rparr>"

section \<open>\<open>processCreateTxn\<close>\<close>

record response =
  Info :: string
  ContractAddress :: "string option"
  TranID :: string

text \<open>The end of \<open>processCreateTxn\<close> (\<open>Update Transactions\<close>): the entry and the answer.\<close>

definition updateTransactions ::
  "json \<Rightarrow> string \<Rightarrow> string option \<Rightarrow> world \<Rightarrow> (error + response) \<times> world" where
  "updateTransactions payload info contractAddress st =
     (let txnId = computeTransactionHash payload;
          recInfo = \<lparr>cumulative_gas = 1, success = True\<rparr>;
          txnDetails =
            \<lparr>ID = txnId,
             amount = getProp payload ''amount'',
             txnNonce = getProp payload ''nonce'',
             receipt = recInfo,
             senderPubKey = getProp payload ''pubKey'',
             signature = getProp payload ''signature'',
             toAddr = getProp payload ''toAddr'',
             version = getProp payload ''version''\<rparr>
      in (Inr \<lparr>Info = info, ContractAddress = contractAddress, TranID = txnId\<rparr>,
          st\<lparr>transactions := assign (transactions st) txnId txnDetails\<rparr>))"

text \<open>
  The branch \<open>!payload.code && !payload.data\<close> (p2p token transfer).
  \<open>payload.toAddr.toLowerCase()\<close> is evaluated after the deduction and the nonce
  increase, and raises on a value that is not a string.
\<close>

definition transferTxn ::
  "json \<Rightarrow> string \<Rightarrow> int \<Rightarrow> int \<Rightarrow> world \<Rightarrow> (error + response) \<times> world" where
  "transferTxn payload senderAddress bnAmount bnTransferTransactionCost st =
     (let totalSum = bnAmount + bnTransferTransactionCost;
          w1 = deductFunds (wallets st) senderAddress totalSum;
          w2 = increaseNonce w1 senderAddress
      in case getProp payload ''toAddr'' of
           Some (JStr receiver) \<Rightarrow>
             updateTransactions payload ''Non-contract txn, sent to shard'' None
               (st\<lparr>wallets := addFunds w2 (toLowerCase receiver) bnAmount\<rparr>)
         | _ \<Rightarrow> (Inl TypeError, st\<lparr>wallets := w2\<rparr>))"

text \<open>The other branch (contract creation / invoke transition).\<close>

definition contractTxn ::
  "deps \<Rightarrow> json \<Rightarrow> string \<Rightarrow> json option \<Rightarrow> int \<Rightarrow> int \<Rightarrow> int \<Rightarrow> world
     \<Rightarrow> (error + response) \<times> world" where
  "contractTxn D payload senderAddress dir bnAmount bnGasLimit bnGasPrice st =
     (let contractAddr = computeContractAddr (wallets st) senderAddress;
          bnGasLimitInZils = bnGasLimit * bnGasPrice;
          bnAmountRequiredForTx = bnAmount + bnGasLimitInZils
      in if \<not> sufficientFunds (wallets st) senderAddress bnAmountRequiredForTx
         then (Inl (Error ''Insufficient funds''), st)
         else
           case executeScillaRun D payload contractAddr senderAddress dir (getBlockNum D) of
             Inl e \<Rightarrow> (Inl e, st)
           | Inr responseData \<Rightarrow>
              (let nextAddr = nextAddress responseData
               in case BN D (gasRemaining responseData) of
                    Inl e \<Rightarrow> (Inl e, st)
                  | Inr bnGasRemaining \<Rightarrow>
                     (let bnGasConsumed = bnGasLimit - bnGasRemaining;
                          gasConsumedInZil = bnGasPrice * bnGasConsumed;
                          deductableAmount = gasConsumedInZil + bnAmount;
                          w1 = deductFunds (wallets st) senderAddress deductableAmount;
                          st1 = st\<lparr>wallets := increaseNonce w1 senderAddress\<rparr>
                      in if nextAddr \<noteq> replicate 40 (CHR ''0'')
                            \<and> drop 2 nextAddr \<noteq> senderAddress
                         then (Inl (Error ''Multi-contract calls are not supported yet.''), st1)
                         else if truthy (getProp payload ''code'')
                                 \<and> getProp payload ''toAddr'' = Some (JStr (replicate 40 (CHR ''0'')))
                         then
                           updateTransactions payload ''Contract Creation txn, sent to shard''
                             (Some contractAddr)
                             (st1\<lparr>createdContractsByUsers :=
                                (case map_of (createdContractsByUsers st1) senderAddress of
                                   Some cs \<Rightarrow>
                                     assign (createdContractsByUsers st1) senderAddress
                                       (cs @ [contractAddr])
                                 | None \<Rightarrow>
                                     assign (createdContractsByUsers st1) senderAddress
                                       [contractAddr])\<rparr>)
                         else
                           updateTransactions payload
                             ''Contract Txn, Shards Match of the sender and receiver'' None st1)))"

text \<open>
  \<open>processCreateTxn(data, options)\<close>. The result pairs what the caller gets (the error
  thrown or the response) with the state left behind, since two of the rejections
  come after the wallet has been changed.
\<close>

definition processCreateTxn ::
  "deps \<Rightarrow> json option \<Rightarrow> json option \<Rightarrow> world \<Rightarrow> (error + response) \<times> world" where
  "processCreateTxn D data options st =
     (case checkTransactionJson data of
        Inl e \<Rightarrow> (Inl e, st)
      | Inr False \<Rightarrow> (Inl (Error ''Invalid Tx Json''), st)
      | Inr True \<Rightarrow>
         (case options of
            None \<Rightarrow> (Inl TypeError, st)
          | Some JNull \<Rightarrow> (Inl TypeError, st)
          | Some opts \<Rightarrow>
             (case Option.bind data elem0 of
                None \<Rightarrow> (Inl TypeError, st)
              | Some payload \<Rightarrow>
                 (let dir = getProp opts ''dataPath'';
                      senderAddress = getAddressFromPublicKey D (getProp payload ''pubKey'');
                      userNonce = nonce (getBalance (wallets st) senderAddress);
                      blockchainGasPrice = gasPrice D
                  in if lessThan D (getProp payload ''gasPrice'') blockchainGasPrice
                     then (Inl (Error (''Payload gas price is insufficient. Current gas price is ''
                                        @ numberToString (gasPrice D))), st)
                     else
                       let bnTransferTransactionCost = transferGasCost D * gasPrice D
                       in if getProp payload ''nonce'' \<noteq> Some (JNum (int userNonce + 1))
                          then (Inl (Error ''Invalid Tx Json''),
                                st\<lparr>wallets := deductFunds (wallets st) senderAddress
                                                 bnTransferTransactionCost\<rparr>)
                          else
                            case BN D (getProp payload ''amount'') of
                              Inl e \<Rightarrow> (Inl e, st)
                            | Inr bnAmount \<Rightarrow>
                            case BN D (getProp payload ''gasLimit'') of
                              Inl e \<Rightarrow> (Inl e, st)
                            | Inr bnGasLimit \<Rightarrow>
                            case BN D (getProp payload ''gasPrice'') of
                              Inl e \<Rightarrow> (Inl e, st)
                            | Inr bnGasPrice \<Rightarrow>
                              if \<not> truthy (getProp payload ''code'')
                                 \<and> \<not> truthy (getProp payload ''data'')
                              then transferTxn payload senderAddress bnAmount
                                     bnTransferTransactionCost st
                              else contractTxn D payload senderAddress dir bnAmount
                                     bnGasLimit bnGasPrice st))))"

section \<open>\<open>processGetSmartContracts\<close>\<close>




section \<open>The contract address in the spec's words\<close>

text \<open>
  The spec's description of the contract address, to be compared with
  \<open>computeContractAddr\<close>: the SHA-256 digest of the bytes of the sender's address
  followed by the nonce, big-endian, at a fixed width in bytes; of the digest, the last
  20 bytes in hexadecimal. The spec gives the width as 16 bytes.
\<close>

definition lastBytes :: "nat \<Rightarrow> 'a list \<Rightarrow> 'a list" where
  "lastBytes k xs = drop (length xs - k) xs"

definition contractAddressSpec :: "nat \<Rightarrow> int list \<Rightarrow> nat \<Rightarrow> string" where
  "contractAddressSpec width senderBytes n =
     toHex (lastBytes 20 (sha256_digest (senderBytes @ be_bytes width (int n))))"

text \<open>A number as a big-endian hexadecimal string of a fixed number of digits.\<close>

fun bigEndianHex :: "nat \<Rightarrow> nat \<Rightarrow> string" where
  "bigEndianHex 0 n = []"
| "bigEndianHex (Suc k) n = bigEndianHex k (n div 16) @ [digit_char (n mod 16)]"

section \<open>A scenario\<close>

text \<open>
  The scenario of the spec: a sender with nonce 4 and balance 1000, a gas price of 1 and
  a fixed transfer cost of 1. The collaborators read numbers in decimal, and the state
  files are those under \<open>data/\<close>.
\<close>

definition aliceAddr :: string where
  "aliceAddr = ''7bb3b0e8a59f3f61d9bff038f4aeb42cae2ecce8''"

definition bobAddr :: string where
  "bobAddr = ''D90F2E538CE0DF89C8273CAD3B63EC44A3C4ED82''"

definition zeroAddr :: string where
  "zeroAddr = replicate 40 (CHR ''0'')"

definition decimalValue :: "string \<Rightarrow> int" where
  "decimalValue s = foldl (\<lambda>a c. 10 * a + (of_char c - 48)) 0 s"

definition demoBN :: "json option \<Rightarrow> error + int" where
  "demoBN v = (case v of
       Some (JStr s) \<Rightarrow> Inr (decimalValue s)
     | Some (JNum n) \<Rightarrow> Inr n
     | _ \<Rightarrow> Inl (Error ''Assertion failed''))"

definition demoLess :: "json option \<Rightarrow> int \<Rightarrow> bool" where
  "demoLess v m = (case v of
       Some (JStr s) \<Rightarrow> decimalValue s < m
     | Some (JNum n) \<Rightarrow> n < m
     | _ \<Rightarrow> False)"

definition demoDeps :: deps where
  "demoDeps =
     \<lparr>gasPrice = 1, transferGasCost = 1, lessThan = demoLess, BN = demoBN,
      getAddressFromPublicKey = (\<lambda>pk. aliceAddr),
      isAddress = (\<lambda>a. length a = 40),
      executeScillaRun =
        (\<lambda>payload contractAddr sender dir bnum.
           Inr \<lparr>nextAddress = zeroAddr, gasRemaining = Some (JStr ''4'')\<rparr>),
      getBlockNum = 0,
      readFile = (\<lambda>path. if take 5 path = ''data/'' then Some ''{}'' else None),
      JSON_parse = (\<lambda>text. Inr (JObj []))\<rparr>"

definition demoWorld :: world where
  "demoWorld =
     \<lparr>transactions = [], createdContractsByUsers = [],
      wallets = (\<lambda>a. if a = aliceAddr then \<lparr>balance = 1000, nonce = 4\<rparr>
                       else \<lparr>balance = 0, nonce = 0\<rparr>)\<rparr>"

definition demoOptions :: "json option" where
  "demoOptions = Some (JObj [(''dataPath'', JStr ''data/'')])"

text \<open>A transfer of 100 with the given nonce, amount and receiver.\<close>

definition transferPayload :: "int \<Rightarrow> string \<Rightarrow> string \<Rightarrow> json" where
  "transferPayload n amt receiver = JObj
     [(''version'', JNum 1), (''nonce'', JNum n), (''toAddr'', JStr receiver),
      (''amount'', JStr amt),
      (''pubKey'', JStr ''0246e7178dc8253201101e18fd6f6eb9972451d121fc57aa2a06dd5c111e58dc6a''),
      (''gasPrice'', JStr ''1''), (''gasLimit'', JStr ''1''),
      (''signature'', JStr ''29ad673848dcd7f5168f205f7a9fcd1e8109408e6c4d7d03e4e869317b9067e6'')]"

text \<open>The eight fields of the transfer of 100 to the second address with the nonce 5.\<close>

definition scenarioFields :: "(string \<times> json) list" where
  "scenarioFields =
     [(''version'', JNum 1), (''nonce'', JNum 5), (''toAddr'', JStr bobAddr),
      (''amount'', JStr ''100''),
      (''pubKey'', JStr ''0246e7178dc8253201101e18fd6f6eb9972451d121fc57aa2a06dd5c111e58dc6a''),
      (''gasPrice'', JStr ''1''), (''gasLimit'', JStr ''1''),
      (''signature'', JStr ''29ad673848dcd7f5168f205f7a9fcd1e8109408e6c4d7d03e4e869317b9067e6'')]"

text \<open>The same, with a property that is none of the ten the spec names.\<close>

definition extraPayload :: json where
  "extraPayload = (case transferPayload 5 ''100'' bobAddr of
       JObj kvs \<Rightarrow> JObj (kvs @ [(''memo'', JStr ''x'')]) | v \<Rightarrow> v)"

text \<open>All eight names, and not one value of the type the spec asks for.\<close>

definition mistypedPayload :: json where
  "mistypedPayload = JObj
     [(''version'', JStr ''1''), (''nonce'', JNull), (''toAddr'', JNum 7),
      (''amount'', JNum 100), (''pubKey'', JBool True), (''gasPrice'', JNum 1),
      (''gasLimit'', JArr []), (''signature'', JObj [])]"

text \<open>A deployment: code, and the all-zero receiver.\<close>

definition deployPayload :: json where
  "deployPayload = JObj
     [(''version'', JNum 1), (''nonce'', JNum 5), (''toAddr'', JStr zeroAddr),
      (''amount'', JStr ''0''),
      (''pubKey'', JStr ''0246e7178dc8253201101e18fd6f6eb9972451d121fc57aa2a06dd5c111e58dc6a''),
      (''gasPrice'', JStr ''1''), (''gasLimit'', JStr ''10''),
      (''signature'', JStr ''29ad673848dcd7f5168f205f7a9fcd1e8109408e6c4d7d03e4e869317b9067e6''),
      (''code'', JStr ''scilla_version 0'')]"

text \<open>The same collaborators, with a runner that names a third party as the next address.\<close>

definition thirdPartyDeps :: deps where
  "thirdPartyDeps = demoDeps
     \<lparr>executeScillaRun :=
        (\<lambda>payload contractAddr sender dir bnum.
           Inr \<lparr>nextAddress = ''0x'' @ toLowerCase bobAddr, gasRemaining = Some (JStr ''4'')\<rparr>)\<rparr>"




section \<open>Snapshot\<close>

text \<open>
  C9. Snapshot round trip: for every snapshot \<open>S\<close> of a transactions map and a
  contracts-by-creator map, \<open>exportData\<close> right after \<open>loadData\<close> of the two maps of
  \<open>S\<close> returns \<open>S\<close>, whatever the state was before.
\<close>

theorem export_after_load:
  "exportData (loadData (transactions S) (createdContractsByUsers S) st) = (S :: ledger)"
  by (simp add: exportData_def loadData_def)

section \<open>What the validator accepts\<close>

lemma newSet_aux:
  "distinct acc \<Longrightarrow>
   set (foldl (\<lambda>acc x. if x \<in> set acc then acc else acc @ [x]) acc a) = set acc \<union> set a
   \<and> distinct (foldl (\<lambda>acc x. if x \<in> set acc then acc else acc @ [x]) acc a)"
  by (induction a arbitrary: acc) auto

lemma set_newSet: "set (newSet a) = set a"
  using newSet_aux [of "[]" a] by (simp add: newSet_def)

lemma distinct_newSet: "distinct (newSet a)"
  using newSet_aux [of "[]" a] by (simp add: newSet_def)

lemma length_intersect: "length (intersect a b) = card (set a \<inter> set b)"
proof -
  have "distinct (intersect a b)"
    by (simp add: intersect_def distinct_newSet)
  then have "length (intersect a b) = card (set (intersect a b))"
    by (simp add: distinct_card)
  also have "set (intersect a b) = set a \<inter> set b"
    by (auto simp: intersect_def set_newSet)
  finally show ?thesis .
qed

lemma distinct_expectedFields: "distinct expectedFields"
  by (simp add: expectedFields_def)

lemma length_expectedFields: "length expectedFields = 8"
  by (simp add: expectedFields_def)

lemma card_expectedFields: "card (set expectedFields) = 8"
  using distinct_expectedFields length_expectedFields by (simp add: distinct_card)

lemma intersect_all_expected:
  "length (intersect ks expectedFields) = 8 \<longleftrightarrow> set expectedFields \<subseteq> set ks"
proof
  assume h: "length (intersect ks expectedFields) = 8"
  have "card (set ks \<inter> set expectedFields) = card (set expectedFields)"
    using h by (simp add: length_intersect card_expectedFields)
  then have "set ks \<inter> set expectedFields = set expectedFields"
    by (intro card_subset_eq) auto
  then show "set expectedFields \<subseteq> set ks" by blast
next
  assume "set expectedFields \<subseteq> set ks"
  then have "set ks \<inter> set expectedFields = set expectedFields" by blast
  then show "length (intersect ks expectedFields) = 8"
    by (simp add: length_intersect card_expectedFields)
qed

lemma length_keys_expected: "length (keys (JArr (map JStr expectedFields))) = 8"
  by (simp add: length_expectedFields)

lemma expected_needs_8:
  assumes "set expectedFields \<subseteq> set ks"
  shows "8 \<le> length ks"
proof -
  have "card (set expectedFields) \<le> card (set ks)"
    using assms by (intro card_mono) auto
  also have "\<dots> \<le> length ks" by (rule card_length)
  finally show ?thesis by (simp add: card_expectedFields)
qed

text \<open>
  With a first element to look at, the answer is whether the eight names are among its
  keys: the type check has no say.
\<close>

lemma check_payload:
  assumes "elem0 d = Some payload" "payload \<noteq> JNull" "typeof (Some d) = ''object''" "d \<noteq> JNull"
  shows "checkTransactionJson (Some d) = Inr (set expectedFields \<subseteq> set (keys payload))"
proof (cases "set expectedFields \<subseteq> set (keys payload)")
  case True
  then show ?thesis
    using assms expected_needs_8 [OF True] intersect_all_expected [of "keys payload"]
    by (cases d; cases payload)
       (simp_all add: checkTransactionJson_def Let_def length_keys_expected del: keys.simps)
next
  case False
  then show ?thesis
    using assms intersect_all_expected [of "keys payload"]
    by (cases d; cases payload)
       (simp_all add: checkTransactionJson_def Let_def length_keys_expected del: keys.simps)
qed

lemma digit_char_lt10: "d < 10 \<Longrightarrow> digit_char d \<in> set ''0123456789''"
proof -
  assume "d < 10"
  then have "d \<in> {0, 1, 2, 3, 4, 5, 6, 7, 8, 9}" by auto
  then show ?thesis by (auto simp: digit_char_def)
qed

lemma decimal_digits: "c \<in> set (radix_digits 10 n) \<Longrightarrow> c \<in> set ''0123456789''"
proof (induction "10::nat" n rule: radix_digits.induct)
  case (1 n)
  show ?case
  proof (cases "n < 10")
    case True
    with "1.prems" show ?thesis using digit_char_lt10 [of n]
      by (subst (asm) radix_digits.simps) simp
  next
    case False
    with "1.prems" have "c \<in> set (radix_digits 10 (n div 10)) \<or> c = digit_char (n mod 10)"
      by (subst (asm) radix_digits.simps) auto
    then show ?thesis
      using "1.hyps" False digit_char_lt10 [of "n mod 10"] by auto
  qed
qed

lemma index_keys_not_expected:
  "\<not> set expectedFields \<subseteq> set (map (radix_digits 10) ns)"
proof
  assume "set expectedFields \<subseteq> set (map (radix_digits 10) ns)"
  then have "''nonce'' \<in> set (map (radix_digits 10) ns)"
    by (auto simp: expectedFields_def)
  then obtain n where "''nonce'' = radix_digits 10 n" by auto
  then have "CHR ''n'' \<in> set (radix_digits 10 n)" by (metis list.set_intros(1))
  then show False using decimal_digits by fastforce
qed

lemma expected_keys_object:
  assumes "set expectedFields \<subseteq> set (keys payload)"
  shows "\<exists>kvs. payload = JObj kvs"
proof (cases payload)
  case (JArr xs)
  with assms index_keys_not_expected [of "[0..<length xs]"] show ?thesis by simp
next
  case (JStr s)
  with assms index_keys_not_expected [of "[0..<length s]"] show ?thesis by simp
qed (use assms in \<open>simp_all add: expectedFields_def\<close>)


text \<open>
  C6, as stated: \<open>checkTransactionJson\<close> accepts a payload only if its keys are the eight
  required names, plus \<open>code\<close> and \<open>data\<close> at most. It does not hold: the payload of the
  scenario with one more property, \<open>memo\<close>, is accepted.
\<close>

theorem extra_key_accepted:
  "checkTransactionJson (Some (JArr [extraPayload])) = Inr True
   \<and> \<not> set (keys extraPayload) \<subseteq> set expectedFields \<union> {''code'', ''data''}"
  by code_simp

text \<open>
  C6, amended: \<open>checkTransactionJson\<close> returns false when the parameter container is
  absent or not an object or array, and accepts exactly when the first element of the
  container is an object that has all eight required names among its keys; further
  keys are not looked at.
\<close>

theorem accepts_iff_all_required_keys:
  "(typeof data \<noteq> ''object'' \<longrightarrow> checkTransactionJson data = Inr False)
   \<and> (checkTransactionJson data = Inr True \<longleftrightarrow>
        (\<exists>d kvs. data = Some d \<and> elem0 d = Some (JObj kvs)
                 \<and> set expectedFields \<subseteq> fst ` set kvs))"
proof (intro conjI impI)
  assume "typeof data \<noteq> ''object''"
  then show "checkTransactionJson data = Inr False"
    by (auto simp: checkTransactionJson_def)
next
  show "checkTransactionJson data = Inr True \<longleftrightarrow>
        (\<exists>d kvs. data = Some d \<and> elem0 d = Some (JObj kvs)
                 \<and> set expectedFields \<subseteq> fst ` set kvs)"
  proof
    assume acc: "checkTransactionJson data = Inr True"
    then obtain d where d: "data = Some d" "d \<noteq> JNull" "typeof (Some d) = ''object''"
      by (cases data) (auto simp: checkTransactionJson_def split: if_splits json.splits)
    from acc d obtain payload where p: "elem0 d = Some payload" "payload \<noteq> JNull"
      by (cases "elem0 d") (auto simp: checkTransactionJson_def split: if_splits json.splits)
    from acc check_payload [OF p d(3) d(2)] d(1)
    have "set expectedFields \<subseteq> set (keys payload)" by simp
    moreover from this obtain kvs where "payload = JObj kvs"
      using expected_keys_object by blast
    ultimately show "\<exists>d kvs. data = Some d \<and> elem0 d = Some (JObj kvs)
                 \<and> set expectedFields \<subseteq> fst ` set kvs"
      using d p by auto
  next
    assume "\<exists>d kvs. data = Some d \<and> elem0 d = Some (JObj kvs)
                 \<and> set expectedFields \<subseteq> fst ` set kvs"
    then obtain d kvs where h: "data = Some d" "elem0 d = Some (JObj kvs)"
        "set expectedFields \<subseteq> fst ` set kvs" by blast
    from h(2) have "typeof (Some d) = ''object''" "d \<noteq> JNull"
      by (cases d rule: elem0.cases; simp)+
    with check_payload [OF h(2)] h show "checkTransactionJson data = Inr True" by simp
  qed
qed


theorem accepts_iff_all_required_keys_witness:
  "checkTransactionJson None = Inr False
   \<and> checkTransactionJson (Some (JStr ''params'')) = Inr False
   \<and> checkTransactionJson (Some (JArr [transferPayload 5 ''100'' bobAddr])) = Inr True
   \<and> checkTransactionJson (Some (JArr [JObj (deleteProp scenarioFields ''nonce'')]))
       \<noteq> Inr True"
  using accepts_iff_all_required_keys [of None]
        accepts_iff_all_required_keys [of "Some (JStr ''params'')"]
        accepts_iff_all_required_keys [of "Some (JArr [transferPayload 5 ''100'' bobAddr])"]
        accepts_iff_all_required_keys
          [of "Some (JArr [JObj (deleteProp scenarioFields ''nonce'')])"]
  by (simp add: transferPayload_def scenarioFields_def deleteProp_def expectedFields_def)

text \<open>
  C2: \<open>checkTransactionJson\<close> returns false for a payload in which \<open>version\<close> or
  \<open>nonce\<close> is not an integer or another required field is not a string. The code
  returns true there: the \<open>return false\<close> of the type check belongs to the callback
  of \<open>map\<close>, whose results are dropped. A payload with all eight names and every value
  of the wrong type:
\<close>

theorem type_check_has_no_effect:
  "checkTransactionJson (Some (JArr [mistypedPayload])) = Inr True
   \<and> \<not> isInteger (getProp mistypedPayload ''version'')
   \<and> \<not> isInteger (getProp mistypedPayload ''nonce'')
   \<and> typeof (getProp mistypedPayload ''toAddr'') \<noteq> ''string''
   \<and> typeCheck mistypedPayload ''version'' = Some False"
  by code_simp


section \<open>The transaction hash\<close>

text \<open>The model of SHA-256 on the test vector of the standard.\<close>

lemma sha256_abc:
  "sha256 (bytes_of ''abc'') = ''ba7816bf8f01cfea414140de5dae2223b00361a396177a9cb410ff61f20015ad''"
  by code_simp
















section \<open>The contract address\<close>

lemma length_be_bytes: "length (be_bytes k n) = k"
  by (induction k arbitrary: n) auto

lemma length_sha256_digest: "length (sha256_digest msg) = 32"
  by (simp add: sha256_digest_def length_be_bytes split: prod.splits)

lemma toHex_Cons: "toHex (b # bs) = hex_byte b @ toHex bs"
  by (simp add: toHex_def)

lemma length_toHex: "length (toHex bs) = 2 * length bs"
  by (induction bs) (simp_all add: toHex_Cons hex_byte_def, simp add: toHex_def)

lemma drop_toHex: "drop (2 * k) (toHex bs) = toHex (drop k bs)"
proof (induction bs arbitrary: k)
  case Nil
  then show ?case by (simp add: toHex_def)
next
  case (Cons b bs)
  then show ?case by (cases k) (simp_all add: toHex_Cons hex_byte_def)
qed

lemma slice_is_last_20: "drop 24 (toHex (sha256_digest msg)) = toHex (lastBytes 20 (sha256_digest msg))"
  using drop_toHex [of 12 "sha256_digest msg"]
  by (simp add: lastBytes_def length_sha256_digest)

lemma digit_char_hex: "digit_char d \<in> set ''0123456789abcdef''"
  unfolding digit_char_def by (rule nth_mem) simp

lemma set_toHex: "set (toHex bs) \<subseteq> set ''0123456789abcdef''"
proof (induction bs)
  case Nil
  then show ?case by (simp add: toHex_def)
next
  case (Cons b bs)
  have "set (hex_byte b) \<subseteq> set ''0123456789abcdef''"
    using digit_char_hex [of "nat (b div 16)"] digit_char_hex [of "nat (b mod 16)"]
    by (simp add: hex_byte_def)
  with Cons show ?case by (simp add: toHex_Cons)
qed

lemma bigEndianHex_zero: "bigEndianHex k 0 = replicate k (CHR ''0'')"
  by (induction k) (simp_all add: digit_char_def replicate_append_same)

lemma padded_digits:
  "n < 16 ^ k \<Longrightarrow> 0 < k \<Longrightarrow>
   replicate (k - length (radix_digits 16 n)) (CHR ''0'') @ radix_digits 16 n = bigEndianHex k n"
proof (induction k arbitrary: n)
  case 0
  then show ?case by simp
next
  case (Suc k)
  show ?case
  proof (cases "n < 16")
    case True
    then have "radix_digits 16 n = [digit_char n]"
      by (subst radix_digits.simps) simp
    with True show ?thesis
      by (simp add: bigEndianHex_zero digit_char_def)
  next
    case False
    then have r: "radix_digits 16 n = radix_digits 16 (n div 16) @ [digit_char (n mod 16)]"
      by (subst radix_digits.simps) simp
    from False Suc.prems have k: "0 < k" by (cases k) auto
    from Suc.prems have "n div 16 < 16 ^ k"
      by (simp add: less_mult_imp_div_less mult.commute)
    from Suc.IH [OF this k] show ?thesis
      by (simp add: r)
  qed
qed

lemma concat_singletons: "concat (map (\<lambda>c. [c]) xs) = xs"
  by (induction xs) auto

lemma concat_replicate_single: "concat (replicate m [x]) = replicate m x"
  by (induction m) auto

lemma intToHexArray_fixed_width:
  "n < 16 ^ 16 \<Longrightarrow> concat (intToHexArray n 16) = bigEndianHex 16 n"
  using padded_digits [of n 16]
  by (simp add: intToHexArray_def Let_def concat_singletons concat_replicate_single)

lemma hex_digits_alnum: "\<forall>c\<in>set ''0123456789abcdef''. alnum c"
  by (simp add: alnum_def)

lemma alnum_digit_char: "alnum (digit_char d)"
  using hex_digits_alnum digit_char_hex by blast

lemma hex_val_table: "list_all (\<lambda>d. hex_val (digit_char d) = Some (int d)) [0..<16]"
  by code_simp

lemma hex_val_digit_char: "d < 16 \<Longrightarrow> hex_val (digit_char d) = Some (int d)"
  using hex_val_table by (simp add: list_all_iff)

lemma parseInt16_digits:
  "x < 16 \<Longrightarrow> y < 16 \<Longrightarrow> parseInt16 (digit_char x) (digit_char y) = 16 * int x + int y"
  by (simp add: parseInt16_def hex_val_digit_char)

lemma pairs16_append: "even (length xs) \<Longrightarrow> pairs16 (xs @ ys) = pairs16 xs @ pairs16 ys"
  by (induction xs rule: pairs16.induct) auto

lemma length_bigEndianHex: "length (bigEndianHex k n) = k"
  by (induction k arbitrary: n) auto

lemma alnum_bigEndianHex: "filter alnum (bigEndianHex k n) = bigEndianHex k n"
  by (induction k arbitrary: n) (auto simp: alnum_digit_char)

lemma bigEndianHex_two_more:
  "bigEndianHex (2 * Suc k) n
     = bigEndianHex (2 * k) (n div 256) @ [digit_char (n div 16 mod 16), digit_char (n mod 16)]"
proof -
  have "n div 16 div 16 = n div 256" by (simp add: div_mult2_eq)
  then show ?thesis by simp
qed

lemma pairs16_bigEndianHex: "pairs16 (bigEndianHex (2 * k) n) = be_bytes k (int n)"
proof (induction k arbitrary: n)
  case 0
  then show ?case by simp
next
  case (Suc k)
  have split: "n mod 256 = 16 * (n div 16 mod 16) + n mod 16"
    using mod_mult2_eq [of n 16 16] by simp
  have "pairs16 (bigEndianHex (2 * Suc k) n)
          = pairs16 (bigEndianHex (2 * k) (n div 256))
            @ [parseInt16 (digit_char (n div 16 mod 16)) (digit_char (n mod 16))]"
    by (simp only: bigEndianHex_two_more)
       (simp add: pairs16_append length_bigEndianHex)
  also have "\<dots> = be_bytes k (int (n div 256)) @ [int (n mod 256)]"
    by (simp add: Suc.IH parseInt16_digits split)
  also have "\<dots> = be_bytes (Suc k) (int n)"
    by (simp add: zdiv_int zmod_int)
  finally show ?case .
qed

text \<open>The nonce field of the hashed message is the nonce in eight bytes, big-endian.\<close>

lemma nonce_field_bytes: "hexToArray (bigEndianHex 16 n) = be_bytes 8 (int n)"
  using pairs16_bigEndianHex [of 8 n]
  by (simp add: hexToArray_def alnum_bigEndianHex length_bigEndianHex)

lemma filter_alnum_toHex: "filter alnum (toHex bs) = toHex bs"
  by (induction bs) (simp_all add: toHex_Cons hex_byte_def alnum_digit_char, simp add: toHex_def)

lemma pairs16_toHex:
  "\<forall>b\<in>set bs. 0 \<le> b \<and> b < 256 \<Longrightarrow> pairs16 (toHex bs) = bs"
proof (induction bs)
  case Nil
  then show ?case by (simp add: toHex_def)
next
  case (Cons b bs)
  then have b: "0 \<le> b" "b < 256" by auto
  have hi: "nat (b div 16) < 16" and lo: "nat (b mod 16) < 16" and nn: "0 \<le> b div 16"
    using b by simp_all
  have "parseInt16 (digit_char (nat (b div 16))) (digit_char (nat (b mod 16))) = b"
    using nn by (simp add: parseInt16_digits [OF hi lo])
  with Cons show ?case by (simp add: toHex_Cons hex_byte_def)
qed

text \<open>Reading a hexadecimal string gives back the bytes it was written from.\<close>

lemma hexToArray_toHex:
  "\<forall>b\<in>set bs. 0 \<le> b \<and> b < 256 \<Longrightarrow> hexToArray (toHex bs) = bs"
  by (simp add: hexToArray_def filter_alnum_toHex length_toHex pairs16_toHex)

text \<open>The address of the first contract of the scenario's sender, and what the spec's
  width of 16 bytes would make of it.\<close>

lemma alice_contract_address:
  "computeContractAddr (wallets demoWorld) aliceAddr = ''4fe99e891121dcfa98c3fd322f0b4c30ea44b62b''"
  by code_simp

lemma alice_address_sixteen_bytes:
  "contractAddressSpec 16 (hexToArray aliceAddr) 4 = ''b48a63e67b8afcbe6d946334908852226fc4547f''"
  by code_simp

text \<open>
  C5, as stated: \<open>computeContractAddr\<close> hashes the bytes of the sender's address followed
  by the nonce in 16 bytes, big-endian. It does not: \<open>intToHexArray(nonce, 16)\<close> makes
  16 hexadecimal digits, which the hash takes as 8 bytes. For the sender of the scenario,
  whose nonce is 4, the two addresses differ.
\<close>

theorem sixteen_byte_nonce_counterexample:
  "nonce (wallets demoWorld aliceAddr) = 4
   \<and> computeContractAddr (wallets demoWorld) aliceAddr
       \<noteq> contractAddressSpec 16 (hexToArray aliceAddr) 4"
  by (simp add: alice_contract_address alice_address_sixteen_bytes) (simp add: demoWorld_def)

text \<open>
  C5, amended: \<open>computeContractAddr\<close> is the last 20 bytes, as 40 hexadecimal
  characters, of the SHA-256 digest of the bytes of the sender's address followed by the
  sender's current nonce as a big-endian hexadecimal string of the fixed width of 16
  digits, that is in 8 bytes; it is deterministic: it depends on the wallet through
  that nonce only. (The width is fixed for the nonces below \<open>16^16\<close>.)
\<close>

theorem contract_address_refines_spec:
  assumes "nonce (w senderAddr) < 16 ^ 16"
  shows "computeContractAddr w senderAddr
           = contractAddressSpec 8 (hexToArray senderAddr) (nonce (w senderAddr))
       \<and> concat (intToHexArray (nonce (w senderAddr)) 16)
           = bigEndianHex 16 (nonce (w senderAddr))
       \<and> length (computeContractAddr w senderAddr) = 40
       \<and> set (computeContractAddr w senderAddr) \<subseteq> set ''0123456789abcdef''
       \<and> (\<forall>w'. nonce (w' senderAddr) = nonce (w senderAddr)
              \<longrightarrow> computeContractAddr w' senderAddr = computeContractAddr w senderAddr)"
proof -
  have eq: "computeContractAddr w senderAddr
           = contractAddressSpec 8 (hexToArray senderAddr) (nonce (w senderAddr))"
    using intToHexArray_fixed_width [OF assms]
    by (simp add: computeContractAddr_def contractAddressSpec_def getBalance_def sha256_def
          slice_is_last_20 nonce_field_bytes)
  have len: "length (computeContractAddr w senderAddr) = 40"
    by (simp add: computeContractAddr_def sha256_def length_toHex length_sha256_digest)
  have hex: "set (computeContractAddr w senderAddr) \<subseteq> set ''0123456789abcdef''"
    using set_toHex set_drop_subset
    by (fastforce simp: computeContractAddr_def sha256_def Let_def)
  have det: "\<forall>w'. nonce (w' senderAddr) = nonce (w senderAddr)
              \<longrightarrow> computeContractAddr w' senderAddr = computeContractAddr w senderAddr"
    by (simp add: computeContractAddr_def getBalance_def)
  from eq intToHexArray_fixed_width [OF assms] len hex det show ?thesis by blast
qed

theorem contract_address_refines_spec_witness:
  "computeContractAddr (wallets demoWorld) aliceAddr
     = contractAddressSpec 8 (hexToArray aliceAddr) 4
   \<and> concat (intToHexArray 4 16) = bigEndianHex 16 4
   \<and> length (computeContractAddr (wallets demoWorld) aliceAddr) = 40"
proof -
  have n: "nonce (wallets demoWorld aliceAddr) = 4"
    by (simp add: demoWorld_def)
  then have h: "nonce (wallets demoWorld aliceAddr) < 16 ^ 16"
    by simp
  from contract_address_refines_spec [of "wallets demoWorld" aliceAddr, OF h, unfolded n]
  show ?thesis
    by blast
qed

section \<open>The router\<close>

text \<open>
  Past the validator and the read of \<open>options.dataPath\<close>, \<open>processCreateTxn\<close> is the
  gas-price check, the nonce check and one of the two branches.
\<close>

lemma gate_passed:
  assumes "checkTransactionJson data = Inr True"
      and "Option.bind data elem0 = Some payload"
      and "options = Some opts" and "opts \<noteq> JNull"
  shows "processCreateTxn D data options st =
     (let dir = getProp opts ''dataPath'';
          senderAddress = getAddressFromPublicKey D (getProp payload ''pubKey'');
          userNonce = nonce (getBalance (wallets st) senderAddress);
          blockchainGasPrice = gasPrice D
      in if lessThan D (getProp payload ''gasPrice'') blockchainGasPrice
         then (Inl (Error (''Payload gas price is insufficient. Current gas price is ''
                            @ numberToString (gasPrice D))), st)
         else
           let bnTransferTransactionCost = transferGasCost D * gasPrice D
           in if getProp payload ''nonce'' \<noteq> Some (JNum (int userNonce + 1))
              then (Inl (Error ''Invalid Tx Json''),
                    st\<lparr>wallets := deductFunds (wallets st) senderAddress
                                     bnTransferTransactionCost\<rparr>)
              else
                case BN D (getProp payload ''amount'') of
                  Inl e \<Rightarrow> (Inl e, st)
                | Inr bnAmount \<Rightarrow>
                case BN D (getProp payload ''gasLimit'') of
                  Inl e \<Rightarrow> (Inl e, st)
                | Inr bnGasLimit \<Rightarrow>
                case BN D (getProp payload ''gasPrice'') of
                  Inl e \<Rightarrow> (Inl e, st)
                | Inr bnGasPrice \<Rightarrow>
                  if \<not> truthy (getProp payload ''code'')
                     \<and> \<not> truthy (getProp payload ''data'')
                  then transferTxn payload senderAddress bnAmount
                         bnTransferTransactionCost st
                  else contractTxn D payload senderAddress dir bnAmount
                         bnGasLimit bnGasPrice st)"
  using assms by (cases opts) (simp_all add: processCreateTxn_def)

text \<open>Facts of the scenario.\<close>

lemma transferPayload_accepted:
  "checkTransactionJson (Some (JArr [transferPayload n amt receiver])) = Inr True"
  by (simp add: check_payload transferPayload_def expectedFields_def)

lemma deployPayload_accepted:
  "checkTransactionJson (Some (JArr [deployPayload])) = Inr True"
  by (simp add: check_payload deployPayload_def expectedFields_def)

lemma demoBN_values:
  "demoBN (Some (JStr ''0'')) = Inr 0" "demoBN (Some (JStr ''1'')) = Inr 1"
  "demoBN (Some (JStr ''4'')) = Inr 4" "demoBN (Some (JStr ''10'')) = Inr 10"
  "demoBN (Some (JStr ''100'')) = Inr 100"
  by (simp_all add: demoBN_def decimalValue_def)

lemma demoLess_one: "\<not> demoLess (Some (JStr ''1'')) 1"
  by (simp add: demoLess_def decimalValue_def)

lemma alice_not_bob: "toLowerCase bobAddr \<noteq> aliceAddr"
  by code_simp

lemma alice_lower: "toLowerCase aliceAddr = aliceAddr"
  by code_simp

subsection \<open>A nonce out of turn\<close>

lemma invalid_nonce_result:
  assumes "checkTransactionJson data = Inr True"
      and "Option.bind data elem0 = Some payload"
      and "options = Some opts" and "opts \<noteq> JNull"
      and "sender = getAddressFromPublicKey D (getProp payload ''pubKey'')"
      and "\<not> lessThan D (getProp payload ''gasPrice'') (gasPrice D)"
      and "getProp payload ''nonce'' \<noteq> Some (JNum (int (nonce (wallets st sender)) + 1))"
  shows "processCreateTxn D data options st =
     (Inl (Error ''Invalid Tx Json''),
      st\<lparr>wallets := deductFunds (wallets st) sender (transferGasCost D * gasPrice D)\<rparr>)"
  using assms(5-7)
  by (simp add: gate_passed [OF assms(1-4)] getBalance_def Let_def)

text \<open>
  What the branch of the nonce check does, for every well-formed payload that passes the
  gas-price check and whose nonce is not the sender's current nonce plus one: it throws
  an error whose message is \<open>Invalid Tx Json\<close>, the sender's balance goes down by
  exactly the fixed transfer fee \<open>transferGasCost * gasPrice\<close>, the sender's nonce stays,
  and neither the ledger nor the registry is written.
  (\<open>options\<close> is an object: \<open>options.dataPath\<close> is read before.)
\<close>

lemma invalid_nonce_charged:
  assumes "checkTransactionJson data = Inr True"
      and "Option.bind data elem0 = Some payload"
      and "options = Some opts" and "opts \<noteq> JNull"
      and "sender = getAddressFromPublicKey D (getProp payload ''pubKey'')"
      and "\<not> lessThan D (getProp payload ''gasPrice'') (gasPrice D)"
      and "getProp payload ''nonce'' \<noteq> Some (JNum (int (nonce (wallets st sender)) + 1))"
  shows "fst (processCreateTxn D data options st) = Inl (Error ''Invalid Tx Json'')
       \<and> balance (wallets (snd (processCreateTxn D data options st)) sender)
           = balance (wallets st sender) - transferGasCost D * gasPrice D
       \<and> nonce (wallets (snd (processCreateTxn D data options st)) sender)
           = nonce (wallets st sender)
       \<and> transactions (snd (processCreateTxn D data options st)) = transactions st
       \<and> createdContractsByUsers (snd (processCreateTxn D data options st))
           = createdContractsByUsers st"
  by (simp add: invalid_nonce_result [OF assms] deductFunds_def)

text \<open>
  C1. A well-formed payload that passes the gas-price check and whose nonce is not the
  sender's current nonce plus one is rejected with an invalid-nonce error, the sender
  pays exactly the fixed transfer fee, the nonce stays and no ledger entry is written.
  The code charges the fee, keeps the nonce and writes nothing, but the error it throws
  is not one of the nonce: in the scenario, the payload with the nonce 9 (the sender is
  at 4) gets the error that a call without parameters gets, the one of the malformed
  payload.
\<close>

theorem stale_nonce_rejected_as_malformed:
  "checkTransactionJson None = Inr False
   \<and> checkTransactionJson (Some (JArr [transferPayload 9 ''100'' bobAddr])) = Inr True
   \<and> fst (processCreateTxn demoDeps (Some (JArr [transferPayload 9 ''100'' bobAddr]))
             demoOptions demoWorld)
       = fst (processCreateTxn demoDeps None demoOptions demoWorld)
   \<and> fst (processCreateTxn demoDeps (Some (JArr [transferPayload 9 ''100'' bobAddr]))
             demoOptions demoWorld) = Inl (Error ''Invalid Tx Json'')
   \<and> balance (wallets (snd (processCreateTxn demoDeps
         (Some (JArr [transferPayload 9 ''100'' bobAddr])) demoOptions demoWorld)) aliceAddr) = 999
   \<and> nonce (wallets (snd (processCreateTxn demoDeps
         (Some (JArr [transferPayload 9 ''100'' bobAddr])) demoOptions demoWorld)) aliceAddr) = 4
   \<and> transactions (snd (processCreateTxn demoDeps
         (Some (JArr [transferPayload 9 ''100'' bobAddr])) demoOptions demoWorld)) = []"
proof -
  have malformed: "checkTransactionJson None = Inr False"
    by (simp add: checkTransactionJson_def)
  then have "fst (processCreateTxn demoDeps None demoOptions demoWorld)
               = Inl (Error ''Invalid Tx Json'')"
    by (simp add: processCreateTxn_def)
  with malformed invalid_nonce_charged
    [of "Some (JArr [transferPayload 9 ''100'' bobAddr])" "transferPayload 9 ''100'' bobAddr"
        demoOptions "JObj [(''dataPath'', JStr ''data/'')]" aliceAddr demoDeps demoWorld]
  show ?thesis
    by (simp add: transferPayload_accepted demoOptions_def demoLess_one)
       (simp add: transferPayload_def demoDeps_def demoWorld_def demoLess_one)
qed

text \<open>
  C7. Every rejection of the pipeline is signalled as a distinct error; in particular
  the caller can tell a malformed payload from an invalid nonce. The code throws
  \<open>new Error('Invalid Tx Json')\<close> in both places: in the scenario, no parameters at
  all and a well-formed payload with the nonce 9 (the sender is at 4) give the caller
  the same error.
\<close>

theorem nonce_error_is_the_malformed_error:
  "checkTransactionJson None = Inr False
   \<and> fst (processCreateTxn demoDeps None demoOptions demoWorld) = Inl (Error ''Invalid Tx Json'')
   \<and> checkTransactionJson (Some (JArr [transferPayload 9 ''100'' bobAddr])) = Inr True
   \<and> fst (processCreateTxn demoDeps (Some (JArr [transferPayload 9 ''100'' bobAddr]))
             demoOptions demoWorld) = Inl (Error ''Invalid Tx Json'')"
proof -
  have malformed: "checkTransactionJson None = Inr False"
    by (simp add: checkTransactionJson_def)
  then have "fst (processCreateTxn demoDeps None demoOptions demoWorld)
               = Inl (Error ''Invalid Tx Json'')"
    by (simp add: processCreateTxn_def)
  moreover have "processCreateTxn demoDeps (Some (JArr [transferPayload 9 ''100'' bobAddr]))
          demoOptions demoWorld =
     (Inl (Error ''Invalid Tx Json''),
      demoWorld\<lparr>wallets := deductFunds (wallets demoWorld) aliceAddr
                               (transferGasCost demoDeps * gasPrice demoDeps)\<rparr>)"
    by (rule invalid_nonce_result [where opts = "JObj [(''dataPath'', JStr ''data/'')]"])
       (simp_all add: transferPayload_accepted demoOptions_def,
        simp_all add: transferPayload_def demoDeps_def demoWorld_def demoLess_one)
  ultimately show ?thesis
    using malformed transferPayload_accepted by simp
qed

subsection \<open>A transfer\<close>

lemma transfer_result:
  assumes "checkTransactionJson data = Inr True"
      and "Option.bind data elem0 = Some payload"
      and "options = Some opts" and "opts \<noteq> JNull"
      and "sender = getAddressFromPublicKey D (getProp payload ''pubKey'')"
      and "\<not> lessThan D (getProp payload ''gasPrice'') (gasPrice D)"
      and "getProp payload ''nonce'' = Some (JNum (int (nonce (wallets st sender)) + 1))"
      and "BN D (getProp payload ''amount'') = Inr amt"
      and "BN D (getProp payload ''gasLimit'') = Inr gl"
      and "BN D (getProp payload ''gasPrice'') = Inr gp"
      and "\<not> truthy (getProp payload ''code'')" and "\<not> truthy (getProp payload ''data'')"
      and "getProp payload ''toAddr'' = Some (JStr receiver)"
  shows "processCreateTxn D data options st =
     updateTransactions payload ''Non-contract txn, sent to shard'' None
       (st\<lparr>wallets := addFunds
              (increaseNonce
                 (deductFunds (wallets st) sender (amt + transferGasCost D * gasPrice D))
                 sender)
              (toLowerCase receiver) amt\<rparr>)"
  using assms(5-13)
  by (simp add: gate_passed [OF assms(1-4)] getBalance_def transferTxn_def Let_def)

text \<open>
  C3, as stated: every valid transfer lowers the sender's balance by exactly the amount
  plus the fixed transfer cost. It does not hold when the receiver is the sender: the
  amount is credited to the account it was taken from. In the scenario, the sender
  sends 100 to its own address with the nonce 5; the transfer succeeds and the
  balance goes from 1000 to 999, not to 899.
\<close>

theorem self_transfer_counterexample:
  "\<not> isl (fst (processCreateTxn demoDeps (Some (JArr [transferPayload 5 ''100'' aliceAddr]))
               demoOptions demoWorld))
   \<and> balance (wallets demoWorld aliceAddr) = 1000
   \<and> balance (wallets (snd (processCreateTxn demoDeps
         (Some (JArr [transferPayload 5 ''100'' aliceAddr])) demoOptions demoWorld)) aliceAddr) = 999
   \<and> 999 \<noteq> (1000 :: int) - (100 + 1)"
proof -
  have "processCreateTxn demoDeps (Some (JArr [transferPayload 5 ''100'' aliceAddr]))
          demoOptions demoWorld =
     updateTransactions (transferPayload 5 ''100'' aliceAddr)
       ''Non-contract txn, sent to shard'' None
       (demoWorld\<lparr>wallets := addFunds
              (increaseNonce
                 (deductFunds (wallets demoWorld) aliceAddr
                    (100 + transferGasCost demoDeps * gasPrice demoDeps))
                 aliceAddr)
              (toLowerCase aliceAddr) 100\<rparr>)"
    by (rule transfer_result [where opts = "JObj [(''dataPath'', JStr ''data/'')]" and gl = 1 and gp = 1])
       (simp_all add: transferPayload_accepted demoOptions_def,
        simp_all add: transferPayload_def demoDeps_def demoWorld_def demoLess_one demoBN_values)
  then show ?thesis
    by (simp add: updateTransactions_def Let_def alice_lower addFunds_def increaseNonce_def
          deductFunds_def demoDeps_def demoWorld_def)
qed

text \<open>
  C3, amended: for every valid transfer payload (no code, no data, a gas price that
  passes the check, the nonce equal to the current nonce plus one),
  \<open>processCreateTxn\<close> succeeds and raises the sender's nonce by exactly one; when the
  receiver address in lower case is not the sender, the sender's balance goes down by
  exactly the amount plus the fixed transfer cost and the balance at the receiver
  address in lower case goes up by the amount; when it is the sender, the balance goes
  down by the fixed transfer cost.
\<close>

theorem transfer_effect:
  assumes "checkTransactionJson data = Inr True"
      and "Option.bind data elem0 = Some payload"
      and "options = Some opts" and "opts \<noteq> JNull"
      and "sender = getAddressFromPublicKey D (getProp payload ''pubKey'')"
      and "\<not> lessThan D (getProp payload ''gasPrice'') (gasPrice D)"
      and "getProp payload ''nonce'' = Some (JNum (int (nonce (wallets st sender)) + 1))"
      and "BN D (getProp payload ''amount'') = Inr amt"
      and "BN D (getProp payload ''gasLimit'') = Inr gl"
      and "BN D (getProp payload ''gasPrice'') = Inr gp"
      and "\<not> truthy (getProp payload ''code'')" and "\<not> truthy (getProp payload ''data'')"
      and "getProp payload ''toAddr'' = Some (JStr receiver)"
  shows "\<not> isl (fst (processCreateTxn D data options st))
       \<and> nonce (wallets (snd (processCreateTxn D data options st)) sender)
           = nonce (wallets st sender) + 1
       \<and> balance (wallets (snd (processCreateTxn D data options st)) sender)
           = (if toLowerCase receiver = sender
              then balance (wallets st sender) - transferGasCost D * gasPrice D
              else balance (wallets st sender) - (amt + transferGasCost D * gasPrice D))
       \<and> (toLowerCase receiver \<noteq> sender \<longrightarrow>
            balance (wallets (snd (processCreateTxn D data options st)) (toLowerCase receiver))
              = balance (wallets st (toLowerCase receiver)) + amt)"
  by (simp add: transfer_result [OF assms] updateTransactions_def Let_def
        addFunds_def increaseNonce_def deductFunds_def)

theorem transfer_effect_witness:
  "\<not> isl (fst (processCreateTxn demoDeps (Some (JArr [transferPayload 5 ''100'' bobAddr]))
               demoOptions demoWorld))
   \<and> nonce (wallets (snd (processCreateTxn demoDeps
         (Some (JArr [transferPayload 5 ''100'' bobAddr])) demoOptions demoWorld)) aliceAddr) = 5
   \<and> balance (wallets (snd (processCreateTxn demoDeps
         (Some (JArr [transferPayload 5 ''100'' bobAddr])) demoOptions demoWorld)) aliceAddr) = 899
   \<and> balance (wallets (snd (processCreateTxn demoDeps
         (Some (JArr [transferPayload 5 ''100'' bobAddr])) demoOptions demoWorld))
         (toLowerCase bobAddr)) = 100"
proof -
  have "toLowerCase bobAddr \<noteq> aliceAddr" by (rule alice_not_bob)
  moreover have "wallets demoWorld (toLowerCase bobAddr) = \<lparr>balance = 0, nonce = 0\<rparr>"
    using alice_not_bob by (simp add: demoWorld_def)
  moreover have "wallets demoWorld aliceAddr = \<lparr>balance = 1000, nonce = 4\<rparr>"
    by (simp add: demoWorld_def)
  moreover note transfer_effect
    [of "Some (JArr [transferPayload 5 ''100'' bobAddr])" "transferPayload 5 ''100'' bobAddr"
        demoOptions "JObj [(''dataPath'', JStr ''data/'')]" aliceAddr demoDeps demoWorld
        100 1 1 bobAddr]
  ultimately show ?thesis
    by (simp add: transferPayload_accepted demoOptions_def)
       (simp add: transferPayload_def demoDeps_def demoLess_one demoBN_values)
qed

subsection \<open>A contract call that names a third party\<close>

text \<open>
  C10. On the contract path, when the runner returns a next address that is not the
  all-zero address and, without its first two characters, not the sender's address,
  \<open>processCreateTxn\<close> throws the multi-contract error after it has deducted
  \<open>gasPrice * (gasLimit - gasRemaining) + amount\<close> from the sender and raised the
  sender's nonce; neither the ledger nor the registry is written.
\<close>

theorem multi_contract_after_charge:
  assumes "checkTransactionJson data = Inr True"
      and "Option.bind data elem0 = Some payload"
      and "options = Some opts" and "opts \<noteq> JNull"
      and "sender = getAddressFromPublicKey D (getProp payload ''pubKey'')"
      and "\<not> lessThan D (getProp payload ''gasPrice'') (gasPrice D)"
      and "getProp payload ''nonce'' = Some (JNum (int (nonce (wallets st sender)) + 1))"
      and "BN D (getProp payload ''amount'') = Inr amt"
      and "BN D (getProp payload ''gasLimit'') = Inr gl"
      and "BN D (getProp payload ''gasPrice'') = Inr gp"
      and "truthy (getProp payload ''code'') \<or> truthy (getProp payload ''data'')"
      and "sufficientFunds (wallets st) sender (amt + gl * gp)"
      and "executeScillaRun D payload (computeContractAddr (wallets st) sender) sender
             (getProp opts ''dataPath'') (getBlockNum D) = Inr r"
      and "BN D (gasRemaining r) = Inr remaining"
      and "nextAddress r \<noteq> replicate 40 (CHR ''0'')"
      and "drop 2 (nextAddress r) \<noteq> sender"
  shows "fst (processCreateTxn D data options st)
           = Inl (Error ''Multi-contract calls are not supported yet.'')
       \<and> balance (wallets (snd (processCreateTxn D data options st)) sender)
           = balance (wallets st sender) - (gp * (gl - remaining) + amt)
       \<and> nonce (wallets (snd (processCreateTxn D data options st)) sender)
           = nonce (wallets st sender) + 1
       \<and> transactions (snd (processCreateTxn D data options st)) = transactions st
       \<and> createdContractsByUsers (snd (processCreateTxn D data options st))
           = createdContractsByUsers st"
proof -
  have "processCreateTxn D data options st =
      (Inl (Error ''Multi-contract calls are not supported yet.''),
       st\<lparr>wallets := increaseNonce
               (deductFunds (wallets st) sender (gp * (gl - remaining) + amt)) sender\<rparr>)"
    using assms(5-16)
    by (auto simp add: gate_passed [OF assms(1-4)] getBalance_def contractTxn_def Let_def)
  then show ?thesis
    by (simp add: increaseNonce_def deductFunds_def)
qed

theorem multi_contract_after_charge_witness:
  "fst (processCreateTxn thirdPartyDeps (Some (JArr [deployPayload])) demoOptions demoWorld)
     = Inl (Error ''Multi-contract calls are not supported yet.'')
   \<and> balance (wallets (snd (processCreateTxn thirdPartyDeps (Some (JArr [deployPayload]))
                               demoOptions demoWorld)) aliceAddr) = 994
   \<and> nonce (wallets (snd (processCreateTxn thirdPartyDeps (Some (JArr [deployPayload]))
                             demoOptions demoWorld)) aliceAddr) = 5
   \<and> transactions (snd (processCreateTxn thirdPartyDeps (Some (JArr [deployPayload]))
                             demoOptions demoWorld)) = []
   \<and> createdContractsByUsers (snd (processCreateTxn thirdPartyDeps (Some (JArr [deployPayload]))
                             demoOptions demoWorld)) = []"
proof -
  have "drop 2 (''0x'' @ toLowerCase bobAddr) \<noteq> aliceAddr"
    using alice_not_bob by simp
  moreover have "''0x'' @ toLowerCase bobAddr \<noteq> replicate 40 (CHR ''0'')"
    by code_simp
  moreover have "wallets demoWorld aliceAddr = \<lparr>balance = 1000, nonce = 4\<rparr>"
    by (simp add: demoWorld_def)
  moreover note multi_contract_after_charge
    [of "Some (JArr [deployPayload])" deployPayload demoOptions
        "JObj [(''dataPath'', JStr ''data/'')]" aliceAddr thirdPartyDeps demoWorld 0 10 1
        "\<lparr>nextAddress = ''0x'' @ toLowerCase bobAddr, gasRemaining = Some (JStr ''4'')\<rparr>" 4]
  ultimately show ?thesis
    by (simp add: deployPayload_accepted demoOptions_def)
       (simp add: deployPayload_def thirdPartyDeps_def demoDeps_def demoLess_one demoBN_values
          sufficientFunds_def demoWorld_def)
qed

subsection \<open>A deployment and the registry\<close>















end
